theory Spec2Isabelle
  imports Complex_Main "HOL-Library.Stream" "HOL-Library.Product_Lexorder"
begin

section \<open>The load-test script \<^verbatim>\<open>scripts/locustfile.py\<close>\<close>

text \<open>
  The script defines two Locust user classes. \<^verbatim>\<open>HighloadUser\<close> has a start hook and four
  weighted tasks (\<^verbatim>\<open>send_metric\<close>, \<^verbatim>\<open>send_batch\<close>, \<^verbatim>\<open>get_analysis\<close>, \<^verbatim>\<open>health_check\<close>);
  \<^verbatim>\<open>HighRPSUser\<close> has the single task \<^verbatim>\<open>rapid_metrics\<close>. Each task is embedded as one
  HOL function of the same name. What a task reads from outside (the random module, the
  clock, the service's replies) is a field of an explicit \<open>world\<close> that every call
  consumes from and returns.

  Numbers are exact reals: the binary representation error of Python's floats is outside
  the model. Python's \<^verbatim>\<open>int\<close> and \<^verbatim>\<open>float\<close> results are not told apart.
\<close>

subsection \<open>Values: JSON, responses, exceptions\<close>

datatype json =
    JNull
  | JBool bool
  | JNumber real
  | JString string
  | JArray "json list"
  | JObject "(string \<times> json) list"

text \<open>The exceptions a task body can raise.\<close>

datatype error = JSONDecodeError | AttributeError

text \<open>
  A response as the tasks read it: \<^verbatim>\<open>response.status_code\<close>, and what \<^verbatim>\<open>response.json()\<close>
  decodes the body to (\<open>None\<close> when the body is not valid JSON, where the call raises).
  A decoded object lists each key once.
\<close>

record response =
  status_code :: int
  decoded :: "json option"

definition response_json :: "response \<Rightarrow> error + json" where
  "response_json r = (case decoded r of None \<Rightarrow> Inl JSONDecodeError | Some v \<Rightarrow> Inr v)"

text \<open>
  \<^verbatim>\<open>data.get(key)\<close>: the value under the key, Python's \<^verbatim>\<open>None\<close> when a dict has no such
  key; only a dict has the method.
\<close>

fun py_get :: "json \<Rightarrow> string \<Rightarrow> error + json" where
  "py_get (JObject kvs) k = Inr (case map_of kvs k of None \<Rightarrow> JNull | Some v \<Rightarrow> v)"
| "py_get _ k = Inl AttributeError"

text \<open>What a task tells the harness about its request: \<^verbatim>\<open>response.success()\<close> or
  \<^verbatim>\<open>response.failure(reason)\<close>.\<close>

datatype outcome = Success | Failure string

datatype request = POST string json | GET string

subsection \<open>Numbers and strings\<close>

text \<open>\<^verbatim>\<open>str(n)\<close> for an integer: decimal digits, a minus sign when negative.\<close>

definition digit_char :: "nat \<Rightarrow> char" where
  "digit_char d = ''0123456789'' ! d"

function str_nat :: "nat \<Rightarrow> string" where
  "str_nat n = (if n < 10 then [digit_char n] else str_nat (n div 10) @ [digit_char (n mod 10)])"
  by pat_completeness auto
termination
  by (relation "measure (\<lambda>n. n)") auto

declare str_nat.simps [simp del]

definition py_str :: "int \<Rightarrow> string" where
  "py_str i = (if i < 0 then ''-'' @ str_nat (nat (- i)) else str_nat (nat i))"

text \<open>The format \<^verbatim>\<open>%0wd\<close> of a natural number: at least \<open>w\<close> digits, zero-filled.\<close>

definition zero_pad :: "nat \<Rightarrow> nat \<Rightarrow> string" where
  "zero_pad w n = (let s = str_nat n in replicate (w - length s) (CHR ''0'') @ s)"

text \<open>
  \<^verbatim>\<open>round(x, 2)\<close>: the nearest multiple of 0.01, a tie going to the even one.
\<close>

definition round_half_even :: "real \<Rightarrow> int" where
  "round_half_even x =
     (let f = \<lfloor>x\<rfloor>; d = x - of_int f
      in if d < 1 / 2 then f else if 1 / 2 < d then f + 1 else if even f then f else f + 1)"

definition py_round2 :: "real \<Rightarrow> real" where
  "py_round2 x = of_int (round_half_even (x * 100)) / 100"

subsection \<open>The clock\<close>

text \<open>A \<^verbatim>\<open>datetime\<close> value, by its fields.\<close>

record datetime =
  year :: nat
  month :: nat
  day :: nat
  hour :: nat
  minute :: nat
  second :: nat
  microsecond :: nat

text \<open>The ranges Python's \<^verbatim>\<open>datetime\<close> keeps its fields in.\<close>

definition valid_datetime :: "datetime \<Rightarrow> bool" where
  "valid_datetime d \<longleftrightarrow>
     1 \<le> year d \<and> year d \<le> 9999 \<and> 1 \<le> month d \<and> month d \<le> 12 \<and>
     1 \<le> day d \<and> day d \<le> 31 \<and> hour d < 24 \<and> minute d < 60 \<and> second d < 60 \<and>
     microsecond d < 1000000"

text \<open>Earlier-or-equal on \<^verbatim>\<open>datetime\<close>s: the fields compared from the year down.\<close>

definition dt_key :: "datetime \<Rightarrow> nat \<times> nat \<times> nat \<times> nat \<times> nat \<times> nat \<times> nat" where
  "dt_key d = (year d, month d, day d, hour d, minute d, second d, microsecond d)"

definition dt_le :: "datetime \<Rightarrow> datetime \<Rightarrow> bool" where
  "dt_le a b \<longleftrightarrow> dt_key a \<le> dt_key b"

text \<open>
  \<^verbatim>\<open>datetime.isoformat()\<close>: \<^verbatim>\<open>YYYY-MM-DDTHH:MM:SS\<close>, followed by \<^verbatim>\<open>.ffffff\<close> unless the
  microsecond field is 0.
\<close>

definition isoformat :: "datetime \<Rightarrow> string" where
  "isoformat d =
     zero_pad 4 (year d) @ ''-'' @ zero_pad 2 (month d) @ ''-'' @ zero_pad 2 (day d) @ ''T'' @
     zero_pad 2 (hour d) @ '':'' @ zero_pad 2 (minute d) @ '':'' @ zero_pad 2 (second d) @
     (if microsecond d = 0 then [] else ''.'' @ zero_pad 6 (microsecond d))"

subsection \<open>The world a session runs in\<close>

text \<open>
  \<^item> \<open>normals\<close>: the standard normal variates behind successive \<^verbatim>\<open>random.gauss\<close> calls;
  \<^item> \<open>entropy\<close>: the raw integers behind successive \<^verbatim>\<open>random.random\<close>, \<^verbatim>\<open>random.choice\<close>
    and \<^verbatim>\<open>random.randint\<close> calls;
  \<^item> \<open>clock\<close>: what successive \<^verbatim>\<open>datetime.utcnow()\<close> calls return;
  \<^item> \<open>replies\<close>: what the service answers to successive requests.
\<close>

record world =
  normals :: "real stream"
  entropy :: "nat stream"
  clock :: "datetime stream"
  replies :: "response stream"

text \<open>\<^verbatim>\<open>random.gauss(mu, sigma)\<close>.\<close>

definition random_gauss :: "real \<Rightarrow> real \<Rightarrow> world \<Rightarrow> real \<times> world" where
  "random_gauss mu sigma w = (mu + shd (normals w) * sigma, w\<lparr>normals := stl (normals w)\<rparr>)"

text \<open>\<^verbatim>\<open>random.random()\<close>: a multiple of \<open>2\<^sup>-\<^sup>5\<^sup>3\<close> in \<open>[0, 1)\<close>.\<close>

definition random_random :: "world \<Rightarrow> real \<times> world" where
  "random_random w =
     (real (shd (entropy w) mod 2 ^ 53) / 2 ^ 53, w\<lparr>entropy := stl (entropy w)\<rparr>)"

text \<open>\<^verbatim>\<open>random.uniform(a, b)\<close> is \<^verbatim>\<open>a + (b - a) * random()\<close>.\<close>

definition random_uniform :: "real \<Rightarrow> real \<Rightarrow> world \<Rightarrow> real \<times> world" where
  "random_uniform a b w = (let (u, w') = random_random w in (a + (b - a) * u, w'))"

text \<open>The random module's \<^verbatim>\<open>_randbelow(n)\<close>, for \<open>n > 0\<close>: an index below \<open>n\<close>.\<close>

definition randbelow :: "nat \<Rightarrow> world \<Rightarrow> nat \<times> world" where
  "randbelow n w = (shd (entropy w) mod n, w\<lparr>entropy := stl (entropy w)\<rparr>)"

text \<open>\<^verbatim>\<open>random.choice(seq)\<close> is \<^verbatim>\<open>seq[_randbelow(len(seq))]\<close>; the script calls it on
  non-empty literals only.\<close>

definition random_choice :: "'a list \<Rightarrow> world \<Rightarrow> 'a \<times> world" where
  "random_choice seq w = (let (i, w') = randbelow (length seq) w in (seq ! i, w'))"

text \<open>\<^verbatim>\<open>random.randint(a, b)\<close> is \<^verbatim>\<open>a + _randbelow(b - a + 1)\<close>, for \<open>a \<le> b\<close>.\<close>

definition random_randint :: "int \<Rightarrow> int \<Rightarrow> world \<Rightarrow> int \<times> world" where
  "random_randint a b w = (let (i, w') = randbelow (nat (b - a + 1)) w in (a + int i, w'))"

definition utcnow :: "world \<Rightarrow> datetime \<times> world" where
  "utcnow w = (shd (clock w), w\<lparr>clock := stl (clock w)\<rparr>)"

text \<open>\<^verbatim>\<open>self.client.post(path, json=body)\<close> and \<^verbatim>\<open>self.client.get(path)\<close>: the request goes
  out and the service's next reply comes back.\<close>

definition client_post :: "string \<Rightarrow> json \<Rightarrow> world \<Rightarrow> (request \<times> response) \<times> world" where
  "client_post path body w = ((POST path body, shd (replies w)), w\<lparr>replies := stl (replies w)\<rparr>)"

definition client_get :: "string \<Rightarrow> world \<Rightarrow> (request \<times> response) \<times> world" where
  "client_get path w = ((GET path, shd (replies w)), w\<lparr>replies := stl (replies w)\<rparr>)"

subsection \<open>\<^verbatim>\<open>HighloadUser\<close>\<close>

text \<open>The attributes a \<^verbatim>\<open>HighloadUser\<close> carries.\<close>

record user =
  device_id :: string
  metrics_count :: int

text \<open>
  What one run of a task leaves behind: the request it sent, what it reported for it
  (\<open>Inl\<close> when the task body raised instead of reporting), and the user and the world
  afterwards.
\<close>

record turn =
  sent :: request
  verdict :: "error + outcome"
  user_after :: user
  world_after :: world

definition on_start :: "world \<Rightarrow> user \<times> world" where
  "on_start w =
     (let (k, w1) = random_randint 1 1000 w
      in (\<lparr>device_id = ''device-'' @ py_str k, metrics_count = 0\<rparr>, w1))"

definition send_metric :: "user \<Rightarrow> world \<Rightarrow> turn" where
  "send_metric self w =
     (let (cpu, w1) = random_gauss 50 15 w;
          cpu = max 0 (min 100 cpu);
          (rps, w2) = random_gauss 500 100 w1;
          rps = max 0 rps;
          (u, w3) = random_random w2;
          (cpu, rps, w5) =
            (if u < 0.05 then
               (let (c, w4) = random_choice [95, 98, 99, 5, 2, 1] w3;
                    (r, w5) = random_choice [1500, 2000, 50, 10] w4
                in (c, r, w5))
             else (cpu, rps, w3));
          (now, w6) = utcnow w5;
          metric = JObject
            [(''timestamp'', JString (isoformat now @ ''Z'')),
             (''cpu'', JNumber (py_round2 cpu)),
             (''rps'', JNumber (py_round2 rps)),
             (''device_id'', JString (device_id self))];
          ((req, response), w7) = client_post ''/metrics'' metric w6
      in if status_code response = 200
         then \<lparr>sent = req, verdict = Inr Success,
                user_after = self\<lparr>metrics_count := metrics_count self + 1\<rparr>,
                world_after = w7\<rparr>
         else \<lparr>sent = req,
                verdict = Inr (Failure (''Status code: '' @ py_str (status_code response))),
                user_after = self, world_after = w7\<rparr>)"

text \<open>The body of \<^verbatim>\<open>for _ in range(10)\<close> in \<^verbatim>\<open>send_batch\<close>, run \<open>n\<close> times on the list
  \<^verbatim>\<open>metrics\<close>.\<close>

fun send_batch_loop :: "nat \<Rightarrow> user \<Rightarrow> json list \<Rightarrow> world \<Rightarrow> json list \<times> world" where
  "send_batch_loop 0 self metrics w = (metrics, w)"
| "send_batch_loop (Suc n) self metrics w =
     (let (cpu, w1) = random_gauss 50 15 w;
          cpu = max 0 (min 100 cpu);
          (rps, w2) = random_gauss 500 100 w1;
          rps = max 0 rps;
          (now, w3) = utcnow w2
      in send_batch_loop n self
           (metrics @
            [JObject
              [(''timestamp'', JString (isoformat now @ ''Z'')),
               (''cpu'', JNumber (py_round2 cpu)),
               (''rps'', JNumber (py_round2 rps)),
               (''device_id'', JString (device_id self))]])
           w3)"

definition send_batch :: "user \<Rightarrow> world \<Rightarrow> turn" where
  "send_batch self w =
     (let (metrics, w1) = send_batch_loop 10 self [] w;
          ((req, response), w2) =
            client_post ''/metrics/batch'' (JObject [(''metrics'', JArray metrics)]) w1
      in if status_code response = 200
         then \<lparr>sent = req, verdict = Inr Success, user_after = self, world_after = w2\<rparr>
         else \<lparr>sent = req,
                verdict = Inr (Failure (''Status code: '' @ py_str (status_code response))),
                user_after = self, world_after = w2\<rparr>)"

definition get_analysis :: "user \<Rightarrow> world \<Rightarrow> turn" where
  "get_analysis self w =
     (let ((req, response), w1) = client_get ''/analyze'' w
      in if status_code response = 200
         then \<lparr>sent = req, verdict = Inr Success, user_after = self, world_after = w1\<rparr>
         else \<lparr>sent = req,
                verdict = Inr (Failure (''Status code: '' @ py_str (status_code response))),
                user_after = self, world_after = w1\<rparr>)"

definition health_check :: "user \<Rightarrow> world \<Rightarrow> turn" where
  "health_check self w =
     (let ((req, response), w1) = client_get ''/health'' w
      in if status_code response = 200
         then (case response_json response of
                 Inl e \<Rightarrow> \<lparr>sent = req, verdict = Inl e, user_after = self, world_after = w1\<rparr>
               | Inr data \<Rightarrow>
                   (case py_get data ''status'' of
                      Inl e \<Rightarrow>
                        \<lparr>sent = req, verdict = Inl e, user_after = self, world_after = w1\<rparr>
                    | Inr v \<Rightarrow>
                        if v = JString ''healthy''
                        then \<lparr>sent = req, verdict = Inr Success,
                               user_after = self, world_after = w1\<rparr>
                        else \<lparr>sent = req, verdict = Inr (Failure ''Service unhealthy''),
                               user_after = self, world_after = w1\<rparr>))
         else \<lparr>sent = req,
                verdict = Inr (Failure (''Status code: '' @ py_str (status_code response))),
                user_after = self, world_after = w1\<rparr>)"

text \<open>The \<^verbatim>\<open>@task(weight)\<close> decorators of the class, in the order of the file.\<close>

datatype task = SendMetric | SendBatch | GetAnalysis | HealthCheck

definition HighloadUser_tasks :: "(task \<times> nat) list" where
  "HighloadUser_tasks = [(SendMetric, 10), (SendBatch, 2), (GetAnalysis, 1), (HealthCheck, 1)]"

fun run_task :: "task \<Rightarrow> user \<Rightarrow> world \<Rightarrow> turn" where
  "run_task SendMetric = send_metric"
| "run_task SendBatch = send_batch"
| "run_task GetAnalysis = get_analysis"
| "run_task HealthCheck = health_check"

text \<open>
  A session: the tasks the harness picks, run one after the other on the user the
  previous one left, whatever each reported. The result lists every turn.
\<close>

fun run_tasks :: "task list \<Rightarrow> user \<Rightarrow> world \<Rightarrow> turn list" where
  "run_tasks [] self w = []"
| "run_tasks (t # ts) self w =
     (let r = run_task t self w in r # run_tasks ts (user_after r) (world_after r))"

subsection \<open>\<^verbatim>\<open>HighRPSUser\<close>\<close>

text \<open>The class has no attributes of its own; its task returns the request it sent and
  the world afterwards. The response of \<^verbatim>\<open>self.client.post\<close> is dropped.\<close>

definition rapid_metrics :: "world \<Rightarrow> request \<times> world" where
  "rapid_metrics w =
     (let (now, w1) = utcnow w;
          (cpu, w2) = random_uniform 20 80 w1;
          (rps, w3) = random_uniform 200 800 w2;
          metric = JObject
            [(''timestamp'', JString (isoformat now @ ''Z'')),
             (''cpu'', JNumber (py_round2 cpu)),
             (''rps'', JNumber (py_round2 rps))];
          ((req, response), w4) = client_post ''/metrics'' metric w3
      in (req, w4))"

subsection \<open>Reading what was sent\<close>

text \<open>The value under a key of a JSON object.\<close>

definition field :: "json \<Rightarrow> string \<Rightarrow> json option" where
  "field j k = (case j of JObject kvs \<Rightarrow> map_of kvs k | _ \<Rightarrow> None)"

text \<open>The metric samples a request carries: the elements under \<^verbatim>\<open>"metrics"\<close> of a batch
  body, the body itself of a single send.\<close>

fun samples :: "request \<Rightarrow> json list" where
  "samples (POST path body) =
     (case field body ''metrics'' of Some (JArray ms) \<Rightarrow> ms | _ \<Rightarrow> [body])"
| "samples (GET path) = []"

text \<open>The range invariant of a sample: \<^verbatim>\<open>cpu\<close> is a number in \<open>[0, 100]\<close> and \<^verbatim>\<open>rps\<close> a
  number that is not negative.\<close>

definition in_range :: "json \<Rightarrow> bool" where
  "in_range m =
     (case (field m ''cpu'', field m ''rps'') of
        (Some (JNumber c), Some (JNumber r)) \<Rightarrow> 0 \<le> c \<and> c \<le> 100 \<and> 0 \<le> r
      | _ \<Rightarrow> False)"

text \<open>
  Reading a timestamp back: the instant that \<^verbatim>\<open>isoformat() + "Z"\<close> wrote, from the
  20 characters of the short form or the 27 of the form with microseconds.
\<close>

definition digit_val :: "char \<Rightarrow> nat" where
  "digit_val c = of_char c - 48"

definition parse_nat :: "string \<Rightarrow> nat" where
  "parse_nat s = foldl (\<lambda>a c. 10 * a + digit_val c) 0 s"

definition parse_timestamp :: "string \<Rightarrow> datetime option" where
  "parse_timestamp s =
     (if (length s = 20 \<or> length s = 27) \<and> last s = CHR ''Z'' then
        Some \<lparr>year = parse_nat (take 4 s),
              month = parse_nat (take 2 (drop 5 s)),
              day = parse_nat (take 2 (drop 8 s)),
              hour = parse_nat (take 2 (drop 11 s)),
              minute = parse_nat (take 2 (drop 14 s)),
              second = parse_nat (take 2 (drop 17 s)),
              microsecond = (if length s = 20 then 0 else parse_nat (take 6 (drop 20 s)))\<rparr>
      else None)"

definition instant :: "json \<Rightarrow> datetime option" where
  "instant m = (case field m ''timestamp'' of Some (JString s) \<Rightarrow> parse_timestamp s | _ \<Rightarrow> None)"

text \<open>The instant of \<open>a\<close> is not after that of \<open>b\<close>.\<close>

definition not_after :: "json \<Rightarrow> json \<Rightarrow> bool" where
  "not_after a b =
     (case (instant a, instant b) of (Some x, Some y) \<Rightarrow> dt_le x y | _ \<Rightarrow> False)"

text \<open>The value under a key of a response's decoded body, when the body decodes to an
  object that has the key.\<close>

definition body_field :: "response \<Rightarrow> string \<Rightarrow> json option" where
  "body_field r k = (case decoded r of None \<Rightarrow> None | Some d \<Rightarrow> field d k)"

definition is_object :: "json option \<Rightarrow> bool" where
  "is_object d = (case d of Some (JObject kvs) \<Rightarrow> True | _ \<Rightarrow> False)"

text \<open>The task reported an outcome for its request, rather than raising.\<close>

definition reported :: "turn \<Rightarrow> bool" where
  "reported t = (case verdict t of Inr out \<Rightarrow> True | Inl e \<Rightarrow> False)"

subsection \<open>The samples in closed form\<close>

text \<open>
  The sample a single send builds, read off the draws it makes: the first two normal
  variates, the raw integer behind the anomaly roll and the two behind the choices, and
  the first clock reading.
\<close>

definition single_sample :: "user \<Rightarrow> world \<Rightarrow> json" where
  "single_sample self w =
     (let anomaly = real (shd (entropy w) mod 2 ^ 53) / 2 ^ 53 < 0.05;
          cpu = (if anomaly then [95, 98, 99, 5, 2, 1] ! (shd (stl (entropy w)) mod 6)
                 else max 0 (min 100 (50 + shd (normals w) * 15)));
          rps = (if anomaly then [1500, 2000, 50, 10] ! (shd (stl (stl (entropy w))) mod 4)
                 else max 0 (500 + shd (stl (normals w)) * 100))
      in JObject
           [(''timestamp'', JString (isoformat (shd (clock w)) @ ''Z'')),
            (''cpu'', JNumber (py_round2 cpu)),
            (''rps'', JNumber (py_round2 rps)),
            (''device_id'', JString (device_id self))])"

text \<open>
  Element \<open>i\<close> of a batch, read off the draws the loop makes in its round \<open>i\<close>: the normal
  variates \<open>2i\<close> and \<open>2i + 1\<close> and the clock reading \<open>i\<close>.
\<close>

definition batch_sample :: "user \<Rightarrow> world \<Rightarrow> nat \<Rightarrow> json" where
  "batch_sample self w i =
     JObject
       [(''timestamp'', JString (isoformat (clock w !! i) @ ''Z'')),
        (''cpu'', JNumber (py_round2 (max 0 (min 100 (50 + normals w !! (2 * i) * 15))))),
        (''rps'', JNumber (py_round2 (max 0 (500 + normals w !! (2 * i + 1) * 100)))),
        (''device_id'', JString (device_id self))]"

text \<open>A turn keeps the device id \<open>dev\<close>: the user still has it afterwards and every sample
  of the request carries it under \<^verbatim>\<open>device_id\<close>.\<close>

definition carries :: "string \<Rightarrow> turn \<Rightarrow> bool" where
  "carries dev t \<longleftrightarrow>
     device_id (user_after t) = dev \<and>
     list_all (\<lambda>m. field m ''device_id'' = Some (JString dev)) (samples (sent t))"

subsection \<open>Concrete inputs\<close>

text \<open>
  A user, and a world for it: the first two normal variates push \<^verbatim>\<open>cpu\<close> above 100 and
  \<^verbatim>\<open>rps\<close> below 0, every raw random integer is \<open>e\<close>, the clock reads a whole second, then
  1200 microseconds later, then the next second, and the service always answers \<open>r\<close>.
\<close>

definition demo_user :: user where
  "demo_user = \<lparr>device_id = ''device-7'', metrics_count = 3\<rparr>"

definition demo_clock :: "datetime stream" where
  "demo_clock =
     \<lparr>year = 2024, month = 1, day = 2, hour = 3, minute = 4, second = 5, microsecond = 0\<rparr> ##
     \<lparr>year = 2024, month = 1, day = 2, hour = 3, minute = 4, second = 5, microsecond = 1200\<rparr> ##
     sconst \<lparr>year = 2024, month = 1, day = 2, hour = 3, minute = 4, second = 6, microsecond = 0\<rparr>"

definition demo_world :: "nat \<Rightarrow> response \<Rightarrow> world" where
  "demo_world e r =
     \<lparr>normals = 4 ## - 6 ## sconst 0, entropy = sconst e, clock = demo_clock, replies = sconst r\<rparr>"

section \<open>Properties\<close>

subsection \<open>Rounding keeps integer bounds\<close>

lemma round_half_even_ge: "of_int n \<le> x \<Longrightarrow> n \<le> round_half_even x"
proof -
  assume "of_int n \<le> x"
  then have "n \<le> \<lfloor>x\<rfloor>" by (simp add: le_floor_iff)
  then show ?thesis
    unfolding round_half_even_def Let_def by auto
qed

lemma round_half_even_le: "x \<le> of_int n \<Longrightarrow> round_half_even x \<le> n"
proof -
  assume le: "x \<le> of_int n"
  then have fl: "\<lfloor>x\<rfloor> \<le> n" by (simp add: floor_le_iff)
  show ?thesis
  proof (cases "\<lfloor>x\<rfloor> = n")
    case True
    then have "x - of_int \<lfloor>x\<rfloor> \<le> 0" using le by simp
    then show ?thesis
      unfolding round_half_even_def Let_def using True by auto
  next
    case False
    then have "\<lfloor>x\<rfloor> + 1 \<le> n" using fl by linarith
    then show ?thesis
      unfolding round_half_even_def Let_def using fl by auto
  qed
qed

lemma py_round2_ge: "of_int n \<le> x \<Longrightarrow> of_int n \<le> py_round2 x"
proof -
  assume "of_int n \<le> x"
  then have "of_int (n * 100) \<le> x * 100" by simp
  then have "n * 100 \<le> round_half_even (x * 100)" by (rule round_half_even_ge)
  then have "of_int (n * 100) \<le> (of_int (round_half_even (x * 100)) :: real)"
    by (simp only: of_int_le_iff)
  then show ?thesis by (simp add: py_round2_def)
qed

lemma py_round2_le: "x \<le> of_int n \<Longrightarrow> py_round2 x \<le> of_int n"
proof -
  assume "x \<le> of_int n"
  then have "x * 100 \<le> of_int (n * 100)" by simp
  then have "round_half_even (x * 100) \<le> n * 100" by (rule round_half_even_le)
  then have "(of_int (round_half_even (x * 100)) :: real) \<le> of_int (n * 100)"
    by (simp only: of_int_le_iff)
  then show ?thesis by (simp add: py_round2_def)
qed

lemma py_round2_of_int: "py_round2 (of_int n) = of_int n"
  by (simp add: py_round2_def round_half_even_def)

subsection \<open>What each task reports and leaves\<close>

lemmas prims = random_gauss_def random_random_def random_choice_def randbelow_def
  random_randint_def random_uniform_def utcnow_def client_post_def client_get_def

lemma send_metric_reply:
  "user_after (send_metric self w) =
     (if status_code (shd (replies w)) = 200
      then self\<lparr>metrics_count := metrics_count self + 1\<rparr> else self)"
  by (simp add: send_metric_def prims Let_def split_def)

lemma send_metric_verdict:
  "verdict (send_metric self w) =
     (if status_code (shd (replies w)) = 200 then Inr Success
      else Inr (Failure (''Status code: '' @ py_str (status_code (shd (replies w))))))"
  by (simp add: send_metric_def prims Let_def split_def)

lemma send_batch_loop_replies: "replies (snd (send_batch_loop n self ms w)) = replies w"
  by (induction n self ms w rule: send_batch_loop.induct) (simp_all add: prims Let_def split_def)

lemma send_batch_user: "user_after (send_batch self w) = self"
  by (simp add: send_batch_def prims Let_def split_def)

lemma send_batch_verdict:
  "verdict (send_batch self w) =
     (if status_code (shd (replies w)) = 200 then Inr Success
      else Inr (Failure (''Status code: '' @ py_str (status_code (shd (replies w))))))"
  by (simp add: send_batch_def prims Let_def split_def send_batch_loop_replies)

lemma get_analysis_user: "user_after (get_analysis self w) = self"
  by (simp add: get_analysis_def prims Let_def split_def)

lemma get_analysis_verdict:
  "verdict (get_analysis self w) =
     (if status_code (shd (replies w)) = 200 then Inr Success
      else Inr (Failure (''Status code: '' @ py_str (status_code (shd (replies w))))))"
  by (simp add: get_analysis_def prims Let_def split_def)

lemma health_check_user: "user_after (health_check self w) = self"
  by (simp add: health_check_def prims Let_def split_def split: sum.splits)

lemma health_check_verdict:
  "verdict (health_check self w) =
     (let response = shd (replies w) in
      if status_code response = 200 then
        (case decoded response of
           None \<Rightarrow> Inl JSONDecodeError
         | Some (JObject kvs) \<Rightarrow>
             if map_of kvs ''status'' = Some (JString ''healthy'') then Inr Success
             else Inr (Failure ''Service unhealthy'')
         | Some _ \<Rightarrow> Inl AttributeError)
      else Inr (Failure (''Status code: '' @ py_str (status_code response))))"
  by (auto simp add: health_check_def prims Let_def split_def response_json_def
      split: sum.splits option.splits json.splits)

subsection \<open>What each task sends\<close>

lemma random_unit: "0 \<le> real (k mod 2 ^ 53) / 2 ^ 53 \<and> real (k mod 2 ^ 53) / 2 ^ 53 < 1"
proof -
  have "k mod 2 ^ 53 < (2 ^ 53 :: nat)" by simp
  then have "real (k mod 2 ^ 53) < 2 ^ 53"
    by (metis of_nat_less_iff of_nat_numeral of_nat_power)
  then show ?thesis by simp
qed

lemma send_metric_sent: "sent (send_metric self w) = POST ''/metrics'' (single_sample self w)"
  by (simp add: send_metric_def single_sample_def prims Let_def split_def)

lemma batch_sample_shift:
  "batch_sample self (w\<lparr>normals := stl (stl (normals w)), clock := stl (clock w)\<rparr>) i =
   batch_sample self w (Suc i)"
  by (simp add: batch_sample_def)

lemma upt_Suc_map: "map f [0..<Suc n] = f 0 # map (\<lambda>i. f (Suc i)) [0..<n]"
proof -
  have "[0..<Suc n] = 0 # map Suc [0..<n]"
    by (simp only: map_Suc_upt upt_conv_Cons [of 0 "Suc n"])
  then show ?thesis by (simp add: comp_def del: upt_Suc)
qed

lemma send_batch_loop_closed:
  "send_batch_loop n self ms w =
     (ms @ map (batch_sample self w) [0..<n],
      w\<lparr>normals := sdrop (2 * n) (normals w), clock := sdrop n (clock w)\<rparr>)"
proof (induction n arbitrary: ms w)
  case 0
  show ?case by simp
next
  case (Suc n)
  let ?w3 = "w\<lparr>normals := stl (stl (normals w)), clock := stl (clock w)\<rparr>"
  have step: "send_batch_loop (Suc n) self ms w =
      send_batch_loop n self (ms @ [batch_sample self w 0]) ?w3"
    by (simp add: prims Let_def split_def batch_sample_def)
  have "send_batch_loop n self (ms @ [batch_sample self w 0]) ?w3 =
      ((ms @ [batch_sample self w 0]) @ map (batch_sample self ?w3) [0..<n],
       ?w3\<lparr>normals := sdrop (2 * n) (normals ?w3), clock := sdrop n (clock ?w3)\<rparr>)"
    by (rule Suc.IH)
  also have "\<dots> = (ms @ map (batch_sample self w) [0..<Suc n],
       w\<lparr>normals := sdrop (2 * Suc n) (normals w), clock := sdrop (Suc n) (clock w)\<rparr>)"
    by (simp add: upt_Suc_map batch_sample_shift del: upt_Suc)
  finally show ?case using step by simp
qed

lemma send_batch_sent:
  "sent (send_batch self w) =
     POST ''/metrics/batch'' (JObject [(''metrics'', JArray (map (batch_sample self w) [0..<10]))])"
  by (simp add: send_batch_def send_batch_loop_closed prims Let_def split_def del: upt_Suc)

lemma send_batch_world:
  "world_after (send_batch self w) =
     w\<lparr>normals := sdrop 20 (normals w), clock := sdrop 10 (clock w), replies := stl (replies w)\<rparr>"
  by (simp add: send_batch_def send_batch_loop_closed prims Let_def split_def del: upt_Suc)

lemma samples_send_batch: "samples (sent (send_batch self w)) = map (batch_sample self w) [0..<10]"
  by (simp add: send_batch_sent field_def del: upt_Suc)

subsection \<open>Ranges of what is sent\<close>

lemma py_round2_unit_interval:
  "0 \<le> x \<Longrightarrow> x \<le> 100 \<Longrightarrow> 0 \<le> py_round2 x \<and> py_round2 x \<le> 100"
  using py_round2_ge [of 0 x] py_round2_le [of x 100] by simp

lemma py_round2_nonneg: "0 \<le> x \<Longrightarrow> 0 \<le> py_round2 x"
  using py_round2_ge [of 0 x] by simp

lemma anomaly_cpu: "0 \<le> [95, 98, 99, 5, 2, 1 :: real] ! (k mod 6) \<and>
    [95, 98, 99, 5, 2, 1 :: real] ! (k mod 6) \<le> 100"
proof -
  have "k mod 6 < length [95, 98, 99, 5, 2, 1 :: real]" by simp
  then have "[95, 98, 99, 5, 2, 1 :: real] ! (k mod 6) \<in> set [95, 98, 99, 5, 2, 1]"
    by (rule nth_mem)
  then show ?thesis by auto
qed

lemma anomaly_rps: "0 \<le> [1500, 2000, 50, 10 :: real] ! (k mod 4)"
proof -
  have "k mod 4 < length [1500, 2000, 50, 10 :: real]" by simp
  then have "[1500, 2000, 50, 10 :: real] ! (k mod 4) \<in> set [1500, 2000, 50, 10]"
    by (rule nth_mem)
  then show ?thesis by auto
qed

lemma in_range_single_sample: "in_range (single_sample self w)"
proof (cases "real (shd (entropy w) mod 2 ^ 53) / 2 ^ 53 < 0.05")
  case True
  then show ?thesis
    using anomaly_cpu [of "shd (stl (entropy w))"] anomaly_rps [of "shd (stl (stl (entropy w)))"]
    by (simp add: in_range_def single_sample_def field_def py_round2_unit_interval
        py_round2_nonneg)
next
  case False
  then show ?thesis
    by (simp add: in_range_def single_sample_def field_def py_round2_unit_interval
        py_round2_nonneg)
qed

lemma in_range_batch_sample: "in_range (batch_sample self w i)"
  by (simp add: in_range_def batch_sample_def field_def py_round2_unit_interval py_round2_nonneg)

lemma samples_send_metric: "samples (sent (send_metric self w)) = [single_sample self w]"
  by (simp add: send_metric_sent single_sample_def field_def Let_def)

lemma rapid_metrics_sent:
  "fst (rapid_metrics w) =
     POST ''/metrics''
       (JObject
         [(''timestamp'', JString (isoformat (shd (clock w)) @ ''Z'')),
          (''cpu'', JNumber (py_round2 (fst (random_uniform 20 80 w)))),
          (''rps'', JNumber
             (py_round2 (fst (random_uniform 200 800 (snd (random_uniform 20 80 w))))))])"
  by (simp add: rapid_metrics_def prims Let_def split_def)

lemma random_uniform_range:
  "a \<le> b \<Longrightarrow> a \<le> fst (random_uniform a b w) \<and> fst (random_uniform a b w) \<le> b"
proof -
  assume ab: "a \<le> b"
  let ?u = "real (shd (entropy w) mod 2 ^ 53) / 2 ^ 53"
  have u: "0 \<le> ?u" "?u < 1" using random_unit [of "shd (entropy w)"] by simp_all
  have "0 \<le> (b - a) * ?u" using ab u(1) by simp
  moreover have "(b - a) * ?u \<le> (b - a) * 1"
    using ab u(2) by (intro mult_left_mono) simp_all
  ultimately show ?thesis
    by (simp add: random_uniform_def random_random_def Let_def)
qed

subsection \<open>Timestamps read back\<close>

lemma digit_val_digit_char: "d < 10 \<Longrightarrow> digit_val (digit_char d) = d"
proof -
  assume "d < 10"
  then have "d \<in> {0, 1, 2, 3, 4, 5, 6, 7, 8, 9}" by auto
  then show ?thesis
    by (auto simp: digit_val_def digit_char_def)
qed

lemma parse_nat_snoc: "parse_nat (s @ [c]) = 10 * parse_nat s + digit_val c"
  by (simp add: parse_nat_def)

lemma parse_nat_str_nat: "parse_nat (str_nat n) = n"
proof (induction n rule: str_nat.induct)
  case (1 n)
  show ?case
  proof (cases "n < 10")
    case True
    then show ?thesis
      by (subst str_nat.simps) (simp add: parse_nat_def digit_val_digit_char)
  next
    case False
    with 1 have "parse_nat (str_nat (n div 10)) = n div 10" by simp
    with False show ?thesis
      by (subst str_nat.simps) (simp add: parse_nat_snoc digit_val_digit_char)
  qed
qed

lemma parse_nat_zeros: "parse_nat (replicate k (CHR ''0'') @ s) = parse_nat s"
proof -
  have "foldl (\<lambda>a c. 10 * a + digit_val c) 0 (replicate k (CHR ''0'')) = 0"
    by (induction k) (simp_all add: digit_val_def)
  then show ?thesis by (simp add: parse_nat_def)
qed

lemma length_str_nat: "0 < w \<Longrightarrow> n < 10 ^ w \<Longrightarrow> length (str_nat n) \<le> w"
proof (induction n arbitrary: w rule: str_nat.induct)
  case (1 n)
  show ?case
  proof (cases "n < 10")
    case True
    with 1(2) show ?thesis by (subst str_nat.simps) simp
  next
    case False
    with 1(3) have w2: "1 < w" by (cases w; cases "w - 1") auto
    then obtain v where v: "w = Suc v" "0 < v" by (cases w) auto
    with 1(3) have "n div 10 < 10 ^ v" by (simp add: less_mult_imp_div_less mult.commute)
    with 1(1) [OF False v(2)] have "length (str_nat (n div 10)) \<le> v" by simp
    with False v show ?thesis by (subst str_nat.simps) simp
  qed
qed

lemma length_zero_pad: "0 < w \<Longrightarrow> n < 10 ^ w \<Longrightarrow> length (zero_pad w n) = w"
  using length_str_nat [of w n] by (simp add: zero_pad_def Let_def)

lemma parse_nat_zero_pad: "parse_nat (zero_pad w n) = n"
  by (simp add: zero_pad_def Let_def parse_nat_zeros parse_nat_str_nat)


lemma parse_timestamp_isoformat:
  assumes "valid_datetime d"
  shows "parse_timestamp (isoformat d @ ''Z'') = Some d"
proof -
  from assms have
    y: "length (zero_pad 4 (year d)) = 4" and mo: "length (zero_pad 2 (month d)) = 2" and
    da: "length (zero_pad 2 (day d)) = 2" and h: "length (zero_pad 2 (hour d)) = 2" and
    mi: "length (zero_pad 2 (minute d)) = 2" and se: "length (zero_pad 2 (second d)) = 2" and
    us: "length (zero_pad 6 (microsecond d)) = 6"
    by (simp_all add: valid_datetime_def length_zero_pad)
  show ?thesis
  proof (cases "microsecond d = 0")
    case True
    then show ?thesis
      by (simp add: parse_timestamp_def isoformat_def y mo da h mi se parse_nat_zero_pad)
  next
    case False
    then show ?thesis
      by (simp add: parse_timestamp_def isoformat_def y mo da h mi se us parse_nat_zero_pad)
  qed
qed

subsection \<open>The concrete inputs evaluated\<close>

lemma py_round2_numeral: "py_round2 (numeral n) = numeral n"
  using py_round2_of_int [of "numeral n"] by simp

lemma py_round2_zero: "py_round2 0 = 0"
  using py_round2_of_int [of 0] by simp

lemma demo_single_cpu: "field (single_sample demo_user (demo_world 0 r)) ''cpu'' = Some (JNumber 95)"
  by (simp add: single_sample_def demo_world_def field_def py_round2_numeral)

lemma demo_single_rps: "field (single_sample demo_user (demo_world 0 r)) ''rps'' = Some (JNumber 1500)"
  by (simp add: single_sample_def demo_world_def field_def py_round2_numeral)

lemma demo_batch_cpu: "field (batch_sample demo_user (demo_world 0 r) 0) ''cpu'' = Some (JNumber 100)"
  by (simp add: batch_sample_def demo_world_def field_def py_round2_numeral)

lemma demo_batch_rps: "field (batch_sample demo_user (demo_world 0 r) 0) ''rps'' = Some (JNumber 0)"
  by (simp add: batch_sample_def demo_world_def field_def py_round2_zero)

lemma hd_samples_send_batch: "hd (samples (sent (send_batch self w))) = batch_sample self w 0"
proof -
  have "[0..<10] = 0 # [1..<10]" by (simp add: upt_conv_Cons)
  then show ?thesis by (simp add: samples_send_batch del: upt_Suc)
qed

lemma stake_demo_clock:
  "stake 10 demo_clock =
     \<lparr>year = 2024, month = 1, day = 2, hour = 3, minute = 4, second = 5, microsecond = 0\<rparr> #
     \<lparr>year = 2024, month = 1, day = 2, hour = 3, minute = 4, second = 5, microsecond = 1200\<rparr> #
     replicate 8
       \<lparr>year = 2024, month = 1, day = 2, hour = 3, minute = 4, second = 6, microsecond = 0\<rparr>"
  by (simp add: demo_clock_def eval_nat_numeral)

lemma demo_clock_valid: "list_all valid_datetime (stake 10 demo_clock)"
  by (simp add: stake_demo_clock valid_datetime_def list_all_iff)

lemma sorted_wrt_replicate: "P x x \<Longrightarrow> sorted_wrt P (replicate n x)"
  by (induction n) simp_all

lemma demo_clock_sorted: "sorted_wrt dt_le (stake 10 demo_clock)"
  by (simp add: stake_demo_clock dt_le_def dt_key_def sorted_wrt_replicate)

lemma instant_batch_sample:
  "valid_datetime (clock w !! i) \<Longrightarrow> instant (batch_sample self w i) = Some (clock w !! i)"
  by (simp add: instant_def batch_sample_def field_def parse_timestamp_isoformat)

lemma stake_snth: "stake n s = map (snth s) [0..<n]"
  by (rule nth_equalityI) simp_all

subsection \<open>The device id through a session\<close>

lemma on_start_closed:
  "on_start w =
     (\<lparr>device_id = ''device-'' @ py_str (1 + int (shd (entropy w) mod 1000)), metrics_count = 0\<rparr>,
      w\<lparr>entropy := stl (entropy w)\<rparr>)"
  by (simp add: on_start_def prims Let_def)

lemma field_single_sample_device:
  "field (single_sample self w) ''device_id'' = Some (JString (device_id self))"
  by (simp add: single_sample_def field_def Let_def)

lemma field_batch_sample_device:
  "field (batch_sample self w i) ''device_id'' = Some (JString (device_id self))"
  by (simp add: batch_sample_def field_def)

lemma get_analysis_sent: "sent (get_analysis self w) = GET ''/analyze''"
  by (simp add: get_analysis_def prims Let_def split_def)

lemma health_check_sent: "sent (health_check self w) = GET ''/health''"
  by (simp add: health_check_def prims Let_def split_def split: sum.splits)

lemma send_metric_device: "device_id (user_after (send_metric self w)) = device_id self"
  by (simp add: send_metric_reply)

lemma run_task_carries: "carries (device_id self) (run_task t self w)"
proof (cases t)
  case SendMetric
  then show ?thesis
    by (simp add: carries_def send_metric_device samples_send_metric field_single_sample_device)
next
  case SendBatch
  then show ?thesis
    by (simp add: carries_def send_batch_user samples_send_batch list_all_iff
        field_batch_sample_device del: upt_Suc)
next
  case GetAnalysis
  then show ?thesis by (simp add: carries_def get_analysis_user get_analysis_sent)
next
  case HealthCheck
  then show ?thesis by (simp add: carries_def health_check_user health_check_sent)
qed

lemma run_tasks_carries: "list_all (carries (device_id self)) (run_tasks ts self w)"
proof (induction ts arbitrary: self w)
  case Nil
  show ?case by simp
next
  case (Cons t ts)
  have c: "carries (device_id self) (run_task t self w)" by (rule run_task_carries)
  then have d: "device_id (user_after (run_task t self w)) = device_id self"
    by (simp add: carries_def)
  from Cons.IH [of "user_after (run_task t self w)" "world_after (run_task t self w)"]
  show ?case using c d by (simp add: Let_def)
qed

lemma str_1000: "py_str 1000 = ''1000''"
  by (simp add: py_str_def str_nat.simps digit_char_def)

subsection \<open>The weight table\<close>

text \<open>
  C8. The task table of \<^verbatim>\<open>HighloadUser\<close> gives weight 10 to the single send, 2 to the batch
  send, 1 to the analysis read and 1 to the health check, it has no other entry, and
  every weight in it is positive.
\<close>

theorem HighloadUser_weights:
  "HighloadUser_tasks = [(SendMetric, 10), (SendBatch, 2), (GetAnalysis, 1), (HealthCheck, 1)]
   \<and> map_of HighloadUser_tasks SendMetric = Some 10
   \<and> map_of HighloadUser_tasks SendBatch = Some 2
   \<and> map_of HighloadUser_tasks GetAnalysis = Some 1
   \<and> map_of HighloadUser_tasks HealthCheck = Some 1
   \<and> distinct (map fst HighloadUser_tasks)
   \<and> list_all (\<lambda>(t, weight). 0 < weight) HighloadUser_tasks"
  by (simp add: HighloadUser_tasks_def)

subsection \<open>The success counter\<close>

text \<open>
  C5. \<^verbatim>\<open>metrics_count\<close> goes up by exactly 1 when a single send is answered with status
  200 and stays as it was when it is answered with anything else; a batch send (whatever
  its answer, status 200 included), an analysis read and a health check leave it as it
  was.
\<close>

theorem metrics_count_frame:
  "metrics_count (user_after (send_metric self w)) =
     metrics_count self + (if status_code (shd (replies w)) = 200 then 1 else 0)
   \<and> metrics_count (user_after (send_batch self w)) = metrics_count self
   \<and> metrics_count (user_after (get_analysis self w)) = metrics_count self
   \<and> metrics_count (user_after (health_check self w)) = metrics_count self"
  by (simp add: send_metric_reply send_batch_user get_analysis_user health_check_user)

subsection \<open>The health check\<close>

text \<open>
  C2. The health check reports success exactly when the status is 200 and the decoded
  body's \<^verbatim>\<open>status\<close> field is the string \<^verbatim>\<open>healthy\<close>. With status 200 and any other value
  in that field it reports the failure \<^verbatim>\<open>Service unhealthy\<close>. With a status other than 200
  it reports a failure whose reason is \<^verbatim>\<open>Status code: \<close> followed by the status.
\<close>

theorem health_check_classification:
  "(verdict (health_check self w) = Inr Success \<longleftrightarrow>
      status_code (shd (replies w)) = 200 \<and>
      body_field (shd (replies w)) ''status'' = Some (JString ''healthy''))
   \<and> (status_code (shd (replies w)) = 200 \<longrightarrow>
        body_field (shd (replies w)) ''status'' = Some v \<longrightarrow> v \<noteq> JString ''healthy'' \<longrightarrow>
        verdict (health_check self w) = Inr (Failure ''Service unhealthy''))
   \<and> (status_code (shd (replies w)) \<noteq> 200 \<longrightarrow>
        verdict (health_check self w) =
          Inr (Failure (''Status code: '' @ py_str (status_code (shd (replies w))))))"
  by (auto simp add: health_check_verdict body_field_def field_def Let_def
      split: option.splits json.splits)

theorem health_check_classification_witness:
  "verdict (health_check demo_user
      (demo_world 0 \<lparr>status_code = 200,
         decoded = Some (JObject [(''status'', JString ''healthy'')])\<rparr>)) = Inr Success
   \<and> verdict (health_check demo_user
      (demo_world 0 \<lparr>status_code = 200,
         decoded = Some (JObject [(''status'', JString ''degraded'')])\<rparr>))
       = Inr (Failure ''Service unhealthy'')
   \<and> verdict (health_check demo_user (demo_world 0 \<lparr>status_code = 503, decoded = None\<rparr>))
       = Inr (Failure ''Status code: 503'')"
proof -
  let ?h = "\<lparr>status_code = 200, decoded = Some (JObject [(''status'', JString ''healthy'')])\<rparr>"
  let ?d = "\<lparr>status_code = 200, decoded = Some (JObject [(''status'', JString ''degraded'')])\<rparr>"
  let ?e = "\<lparr>status_code = 503, decoded = None\<rparr>"
  have str: "py_str 503 = ''503''"
    by (simp add: py_str_def str_nat.simps digit_char_def)
  have a: "verdict (health_check demo_user (demo_world 0 ?h)) = Inr Success"
    using health_check_classification [of demo_user "demo_world 0 ?h" "JString ''healthy''"]
    by (simp add: demo_world_def body_field_def field_def)
  have b: "verdict (health_check demo_user (demo_world 0 ?d)) = Inr (Failure ''Service unhealthy'')"
    using health_check_classification [of demo_user "demo_world 0 ?d" "JString ''degraded''"]
    by (simp add: demo_world_def body_field_def field_def)
  have c: "verdict (health_check demo_user (demo_world 0 ?e)) = Inr (Failure ''Status code: 503'')"
    using health_check_classification [of demo_user "demo_world 0 ?e" JNull]
    by (simp add: demo_world_def str)
  from a b c show ?thesis by simp
qed

text \<open>
  C10. With status 200 and a decoded body that is an object without a \<^verbatim>\<open>status\<close> key, the
  health check reports the failure \<^verbatim>\<open>Service unhealthy\<close>: the same report as for the same
  object with a \<^verbatim>\<open>status\<close> that is present and not \<^verbatim>\<open>healthy\<close>.
\<close>

theorem health_check_no_status:
  "status_code (shd (replies w)) = 200 \<Longrightarrow>
   decoded (shd (replies w)) = Some (JObject kvs) \<Longrightarrow>
   map_of kvs ''status'' = None \<Longrightarrow>
   verdict (health_check self w) = Inr (Failure ''Service unhealthy'')
   \<and> (\<forall>v. v \<noteq> JString ''healthy'' \<longrightarrow>
         verdict (health_check self
           (w\<lparr>replies := \<lparr>status_code = 200, decoded = Some (JObject ((''status'', v) # kvs))\<rparr>
                ## stl (replies w)\<rparr>)) = verdict (health_check self w))"
  by (simp add: health_check_verdict Let_def)

theorem health_check_no_status_witness:
  "verdict (health_check demo_user
     (demo_world 0 \<lparr>status_code = 200, decoded = Some (JObject [(''uptime'', JNumber 12)])\<rparr>))
   = Inr (Failure ''Service unhealthy'')"
  using health_check_no_status [of
    "demo_world 0 \<lparr>status_code = 200, decoded = Some (JObject [(''uptime'', JNumber 12)])\<rparr>"
    "[(''uptime'', JNumber 12)]" demo_user]
  by (simp add: demo_world_def)

subsection \<open>Which responses get a report\<close>

text \<open>
  C3, as stated: every response, a 200 response whose body is not valid JSON included,
  gets a success or failure report. It fails: on status 200 with a body that is not JSON
  the health check raises \<^verbatim>\<open>JSONDecodeError\<close> out of \<^verbatim>\<open>response.json()\<close> and reports nothing.
\<close>

theorem health_check_raises_counterexample:
  "\<not> reported (health_check demo_user (demo_world 0 \<lparr>status_code = 200, decoded = None\<rparr>))"
  by (simp add: reported_def health_check_verdict demo_world_def)

text \<open>
  C3, amended. The single send, the batch send and the analysis read report a success or
  a failure for every response. The health check reports one exactly when the status is
  not 200 or the body decodes to a JSON object; otherwise it raises, and in every case it
  leaves the user as it was.
\<close>

theorem classification_reports:
  "reported (send_metric self w) \<and> reported (send_batch self w) \<and> reported (get_analysis self w)
   \<and> (reported (health_check self w) \<longleftrightarrow>
        status_code (shd (replies w)) \<noteq> 200 \<or> is_object (decoded (shd (replies w))))
   \<and> user_after (health_check self w) = self"
  by (auto simp add: reported_def is_object_def send_metric_verdict send_batch_verdict
      get_analysis_verdict health_check_verdict health_check_user Let_def
      split: option.splits json.splits)

theorem classification_reports_witness:
  "reported (health_check demo_user (demo_world 0 \<lparr>status_code = 503, decoded = None\<rparr>))
   \<and> reported (health_check demo_user
        (demo_world 0 \<lparr>status_code = 200, decoded = Some (JObject [])\<rparr>))
   \<and> \<not> reported (health_check demo_user
        (demo_world 0 \<lparr>status_code = 200, decoded = Some (JArray [])\<rparr>))"
  using classification_reports [of demo_user "demo_world 0 \<lparr>status_code = 503, decoded = None\<rparr>"]
    classification_reports [of demo_user
      "demo_world 0 \<lparr>status_code = 200, decoded = Some (JObject [])\<rparr>"]
    classification_reports [of demo_user
      "demo_world 0 \<lparr>status_code = 200, decoded = Some (JArray [])\<rparr>"]
  by (simp add: demo_world_def is_object_def)

subsection \<open>The range invariant\<close>

text \<open>
  C4. Every sample that is sent satisfies \<open>0 \<le> cpu \<le> 100\<close> and \<open>rps \<ge> 0\<close>: the one sample
  of a single send, whether its anomaly roll fires or not, each of the ten samples of a
  batch send, and the one sample of the high-frequency send.
\<close>

theorem samples_in_range:
  "length (samples (sent (send_metric self w))) = 1
   \<and> list_all in_range (samples (sent (send_metric self w)))
   \<and> length (samples (sent (send_batch self w))) = 10
   \<and> list_all in_range (samples (sent (send_batch self w)))
   \<and> length (samples (fst (rapid_metrics w))) = 1
   \<and> list_all in_range (samples (fst (rapid_metrics w)))"
proof -
  have rapid: "in_range (JObject
         [(''timestamp'', JString (isoformat (shd (clock w)) @ ''Z'')),
          (''cpu'', JNumber (py_round2 (fst (random_uniform 20 80 w)))),
          (''rps'', JNumber
             (py_round2 (fst (random_uniform 200 800 (snd (random_uniform 20 80 w))))))])"
    using random_uniform_range [of 20 80 w]
      random_uniform_range [of 200 800 "snd (random_uniform 20 80 w)"]
    by (simp add: in_range_def field_def py_round2_unit_interval py_round2_nonneg)
  have batch: "list_all in_range (map (batch_sample self w) [0..<10])"
    by (simp add: list_all_iff in_range_batch_sample del: upt_Suc)
  show ?thesis
    using rapid batch
    by (simp add: samples_send_metric in_range_single_sample samples_send_batch
        rapid_metrics_sent field_def del: upt_Suc)
qed

subsection \<open>The high-frequency send\<close>

text \<open>
  C7. The request of \<^verbatim>\<open>rapid_metrics\<close> is a POST to \<^verbatim>\<open>/metrics\<close> of one sample with exactly
  the keys \<^verbatim>\<open>timestamp\<close>, \<^verbatim>\<open>cpu\<close> and \<^verbatim>\<open>rps\<close>: \<^verbatim>\<open>cpu\<close> is \<^verbatim>\<open>random.uniform(20, 80)\<close> rounded
  to 2 places and lies in \<open>[20, 80]\<close>, \<^verbatim>\<open>rps\<close> is \<^verbatim>\<open>random.uniform(200, 800)\<close> rounded to 2
  places and lies in \<open>[200, 800]\<close>; there is no \<^verbatim>\<open>device_id\<close> key and no anomaly value. The
  task does not look at the response: whatever the service replies, the request and
  the state left are the same. No normal variate is drawn, and the task has no counter
  to increment.
\<close>

theorem rapid_metrics_request:
  "fst (rapid_metrics w) =
     POST ''/metrics''
       (JObject
         [(''timestamp'', JString (isoformat (shd (clock w)) @ ''Z'')),
          (''cpu'', JNumber (py_round2 (fst (random_uniform 20 80 w)))),
          (''rps'', JNumber
             (py_round2 (fst (random_uniform 200 800 (snd (random_uniform 20 80 w))))))])
   \<and> 20 \<le> py_round2 (fst (random_uniform 20 80 w))
   \<and> py_round2 (fst (random_uniform 20 80 w)) \<le> 80
   \<and> 200 \<le> py_round2 (fst (random_uniform 200 800 (snd (random_uniform 20 80 w))))
   \<and> py_round2 (fst (random_uniform 200 800 (snd (random_uniform 20 80 w)))) \<le> 800
   \<and> list_all (\<lambda>m. field m ''device_id'' = None) (samples (fst (rapid_metrics w)))
   \<and> rapid_metrics (w\<lparr>replies := rs\<rparr>) =
       (fst (rapid_metrics w), (snd (rapid_metrics w))\<lparr>replies := stl rs\<rparr>)
   \<and> normals (snd (rapid_metrics w)) = normals w"
proof -
  let ?c = "fst (random_uniform 20 80 w)"
  let ?r = "fst (random_uniform 200 800 (snd (random_uniform 20 80 w)))"
  have c: "20 \<le> ?c" "?c \<le> 80" using random_uniform_range [of 20 80 w] by simp_all
  have r: "200 \<le> ?r" "?r \<le> 800"
    using random_uniform_range [of 200 800 "snd (random_uniform 20 80 w)"] by simp_all
  have cb: "20 \<le> py_round2 ?c" "py_round2 ?c \<le> 80"
    using py_round2_ge [of 20 ?c] py_round2_le [of ?c 80] c by simp_all
  have rb: "200 \<le> py_round2 ?r" "py_round2 ?r \<le> 800"
    using py_round2_ge [of 200 ?r] py_round2_le [of ?r 800] r by simp_all
  have indep: "rapid_metrics (w\<lparr>replies := rs\<rparr>) =
       (fst (rapid_metrics w), (snd (rapid_metrics w))\<lparr>replies := stl rs\<rparr>)"
    by (simp add: rapid_metrics_def prims Let_def split_def)
  have nrm: "normals (snd (rapid_metrics w)) = normals w"
    by (simp add: rapid_metrics_def prims Let_def split_def)
  show ?thesis
    using cb rb indep nrm by (simp add: rapid_metrics_sent field_def)
qed

subsection \<open>What a batch element is\<close>

text \<open>
  C1, as stated: each element of a batch rolls the 5% anomaly chance of a single send. It
  fails. In the world below every \<^verbatim>\<open>random.random()\<close> returns 0, so every roll that is made
  fires: the single send sends the anomaly values 95 and 1500, while the first element
  of the batch built from the same draws carries the clamped normal draws 100 and 0.
\<close>

theorem batch_anomaly_counterexample:
  "field (hd (samples (sent (send_metric demo_user
       (demo_world 0 \<lparr>status_code = 200, decoded = None\<rparr>))))) ''cpu'' = Some (JNumber 95)
   \<and> field (hd (samples (sent (send_metric demo_user
       (demo_world 0 \<lparr>status_code = 200, decoded = None\<rparr>))))) ''rps'' = Some (JNumber 1500)
   \<and> field (hd (samples (sent (send_batch demo_user
       (demo_world 0 \<lparr>status_code = 200, decoded = None\<rparr>))))) ''cpu'' = Some (JNumber 100)
   \<and> field (hd (samples (sent (send_batch demo_user
       (demo_world 0 \<lparr>status_code = 200, decoded = None\<rparr>))))) ''rps'' = Some (JNumber 0)"
  by (simp add: samples_send_metric hd_samples_send_batch demo_single_cpu demo_single_rps
      demo_batch_cpu demo_batch_rps)

text \<open>
  C1, amended. Each of the ten elements of a batch is built by the steps of a single
  send without the anomaly step: \<^verbatim>\<open>cpu\<close> is its own \<^verbatim>\<open>gauss(50, 15)\<close> draw clamped to
  \<open>[0, 100]\<close>, \<^verbatim>\<open>rps\<close> its own \<^verbatim>\<open>gauss(500, 100)\<close> draw clamped at 0, both rounded to 2 places,
  with its own clock reading and the user's \<^verbatim>\<open>device_id\<close>. The batch makes no anomaly
  roll: it consumes nothing of what \<^verbatim>\<open>random.random\<close> and \<^verbatim>\<open>random.choice\<close> draw from, and
  its elements do not depend on it.
\<close>

theorem batch_samples_plain:
  "samples (sent (send_batch self w)) = map (batch_sample self w) [0..<10]
   \<and> entropy (world_after (send_batch self w)) = entropy w
   \<and> samples (sent (send_batch self (w\<lparr>entropy := e\<rparr>))) = samples (sent (send_batch self w))"
  by (simp add: samples_send_batch send_batch_world batch_sample_def del: upt_Suc)

subsection \<open>The batch in order\<close>

text \<open>
  C6. A batch send carries exactly 10 samples, each within the range invariant. When the
  ten clock readings of the batch are datetimes that do not go backwards, the timestamps
  of the samples read back as those ten readings in order, so no sample's instant is
  after that of a later sample.
\<close>

theorem batch_ordered:
  assumes valid: "list_all valid_datetime (stake 10 (clock w))"
    and mono: "sorted_wrt dt_le (stake 10 (clock w))"
  shows "length (samples (sent (send_batch self w))) = 10
    \<and> list_all in_range (samples (sent (send_batch self w)))
    \<and> map instant (samples (sent (send_batch self w))) = map Some (stake 10 (clock w))
    \<and> sorted_wrt not_after (samples (sent (send_batch self w)))"
proof -
  let ?bs = "batch_sample self w"
  have v: "valid_datetime (clock w !! i)" if "i < 10" for i
    using valid that by (simp add: stake_snth list_all_iff del: upt_Suc)
  have inst: "instant (?bs i) = Some (clock w !! i)" if "i < 10" for i
    using v [OF that] by (rule instant_batch_sample)
  have m: "map instant (map ?bs [0..<10]) = map Some (stake 10 (clock w))"
    by (simp add: stake_snth inst del: upt_Suc)
  have s0: "sorted_wrt (\<lambda>i j. dt_le (clock w !! i) (clock w !! j)) [0..<10]"
    using mono by (simp add: stake_snth sorted_wrt_map del: upt_Suc)
  have "sorted_wrt (\<lambda>i j. not_after (?bs i) (?bs j)) [0..<10]"
  proof (rule sorted_wrt_mono_rel [OF _ s0])
    fix i j assume "i \<in> set [0..<10]" "j \<in> set [0..<10]" "dt_le (clock w !! i) (clock w !! j)"
    then show "not_after (?bs i) (?bs j)"
      by (simp add: not_after_def inst del: upt_Suc)
  qed
  then have s: "sorted_wrt not_after (map ?bs [0..<10])"
    by (simp add: sorted_wrt_map del: upt_Suc)
  have r: "list_all in_range (map ?bs [0..<10])"
    by (simp add: list_all_iff in_range_batch_sample del: upt_Suc)
  show ?thesis
    using m s r by (simp add: samples_send_batch del: upt_Suc)
qed

theorem batch_ordered_witness:
  "length (samples (sent (send_batch demo_user
      (demo_world 0 \<lparr>status_code = 200, decoded = None\<rparr>)))) = 10
   \<and> sorted_wrt not_after (samples (sent (send_batch demo_user
      (demo_world 0 \<lparr>status_code = 200, decoded = None\<rparr>))))
   \<and> map instant (samples (sent (send_batch demo_user
      (demo_world 0 \<lparr>status_code = 200, decoded = None\<rparr>)))) = map Some (stake 10 demo_clock)"
proof -
  let ?w = "demo_world 0 \<lparr>status_code = 200, decoded = None\<rparr>"
  have c: "clock ?w = demo_clock" by (simp add: demo_world_def)
  have v: "list_all valid_datetime (stake 10 (clock ?w))"
    unfolding c by (rule demo_clock_valid)
  have s: "sorted_wrt dt_le (stake 10 (clock ?w))"
    unfolding c by (rule demo_clock_sorted)
  from batch_ordered [OF v s, of demo_user] show ?thesis
    unfolding c by simp
qed

subsection \<open>The device id\<close>

text \<open>
  C9. \<^verbatim>\<open>on_start\<close> sets \<^verbatim>\<open>device_id\<close> to \<^verbatim>\<open>device-\<close> followed by the decimal digits of an
  integer \<open>k\<close> with \<open>1 \<le> k \<le> 1000\<close>, and sets the counter to 0; every \<open>k\<close> of that range is
  the outcome of some draw. Through any sequence of tasks run after it, the user keeps
  that \<^verbatim>\<open>device_id\<close>, and every sample sent, the one of a single send and each element of
  a batch, carries it.
\<close>

theorem device_id_stable:
  "(\<exists>k. 1 \<le> k \<and> k \<le> 1000 \<and> device_id (fst (on_start w)) = ''device-'' @ py_str k)
   \<and> metrics_count (fst (on_start w)) = 0
   \<and> list_all (carries (device_id (fst (on_start w))))
        (run_tasks ts (fst (on_start w)) (snd (on_start w)))
   \<and> (\<forall>k. 1 \<le> k \<and> k \<le> 1000 \<longrightarrow>
        (\<exists>w'. device_id (fst (on_start w')) = ''device-'' @ py_str k))"
proof -
  let ?k = "1 + int (shd (entropy w) mod 1000)"
  have "1 \<le> ?k \<and> ?k \<le> 1000 \<and> device_id (fst (on_start w)) = ''device-'' @ py_str ?k"
    by (simp add: on_start_closed)
  then have ex: "\<exists>k. 1 \<le> k \<and> k \<le> 1000 \<and> device_id (fst (on_start w)) = ''device-'' @ py_str k"
    by blast
  have reach: "\<exists>w'. device_id (fst (on_start w')) = ''device-'' @ py_str k"
    if "1 \<le> k \<and> k \<le> 1000" for k
  proof
    let ?w = "w\<lparr>entropy := sconst (nat (k - 1))\<rparr>"
    from that have "nat (k - 1) < 1000" by linarith
    then have "nat (k - 1) mod 1000 = nat (k - 1)" by simp
    with that have "int (nat (k - 1) mod 1000) = k - 1" by simp
    then show "device_id (fst (on_start ?w)) = ''device-'' @ py_str k"
      by (simp add: on_start_closed)
  qed
  show ?thesis
    using ex reach run_tasks_carries [of "fst (on_start w)" ts "snd (on_start w)"]
    by (simp add: on_start_closed)
qed

theorem device_id_stable_witness:
  "\<exists>w'. device_id (fst (on_start w')) = ''device-1000''"
proof -
  have "\<forall>k. 1 \<le> k \<and> k \<le> 1000 \<longrightarrow>
        (\<exists>w'. device_id (fst (on_start w')) = ''device-'' @ py_str k)"
    using device_id_stable [of "demo_world 0 \<lparr>status_code = 200, decoded = None\<rparr>" "[]"]
    by blast
  then have "\<exists>w'. device_id (fst (on_start w')) = ''device-'' @ py_str 1000"
    by simp
  then show ?thesis by (simp add: str_1000)
qed

end
